theory Spec2Isabelle
  imports Complex_Main
begin

section \<open>Vectors and matrices\<close>

text \<open>
  The arrays of \<^verbatim>\<open>keypoint_transform.py\<close> are numpy arrays of double-precision
  numbers. The development works in exact arithmetic: a coordinate is a \<^typ>\<open>real\<close>, a
  point or vector is a triple, an array of shape (N, 3) is a list of triples. Every
  statement about lengths and angles below is a statement about the algorithm in exact
  arithmetic; rounding is outside the model.
\<close>

type_synonym vec3 = "real \<times> real \<times> real"

type_synonym mat3 = "vec3 \<times> vec3 \<times> vec3"

text \<open>
  The ways the modelled code can fail. The first five are the Python exceptions the
  source can raise; \<open>Undefined_result\<close> stands for a normalization of a vector of
  magnitude zero, whose result the specification calls undefined.
\<close>

datatype failure =
  ValueError | IndexError | LinAlgError | ZeroDivisionError | OSError | Undefined_result

definition bnd :: "failure + 'a \<Rightarrow> ('a \<Rightarrow> failure + 'b) \<Rightarrow> failure + 'b" where
  "bnd m f = (case m of Inl e \<Rightarrow> Inl e | Inr x \<Rightarrow> f x)"

fun vadd :: "vec3 \<Rightarrow> vec3 \<Rightarrow> vec3" where
  "vadd (a1, a2, a3) (b1, b2, b3) = (a1 + b1, a2 + b2, a3 + b3)"

fun vsub :: "vec3 \<Rightarrow> vec3 \<Rightarrow> vec3" where
  "vsub (a1, a2, a3) (b1, b2, b3) = (a1 - b1, a2 - b2, a3 - b3)"

fun smult :: "real \<Rightarrow> vec3 \<Rightarrow> vec3" where
  "smult c (a1, a2, a3) = (c * a1, c * a2, c * a3)"

fun vdiv :: "vec3 \<Rightarrow> real \<Rightarrow> vec3" where
  "vdiv (a1, a2, a3) c = (a1 / c, a2 / c, a3 / c)"

text \<open>\<^verbatim>\<open>np.dot\<close> and \<^verbatim>\<open>np.cross\<close> on vectors of length three.\<close>

fun dot :: "vec3 \<Rightarrow> vec3 \<Rightarrow> real" where
  "dot (a1, a2, a3) (b1, b2, b3) = a1 * b1 + a2 * b2 + a3 * b3"

fun cross :: "vec3 \<Rightarrow> vec3 \<Rightarrow> vec3" where
  "cross (a1, a2, a3) (b1, b2, b3) = (a2 * b3 - a3 * b2, a3 * b1 - a1 * b3, a1 * b2 - a2 * b1)"

definition vnorm :: "vec3 \<Rightarrow> real" where
  "vnorm v = sqrt (dot v v)"

text \<open>
  Modelled from the spec: \<^verbatim>\<open>normalize_vector\<close> is imported from
  \<^verbatim>\<open>beavr.teleop.common.math.vectorops\<close>, which is not among the source files. The
  specification says "normalize" and, for a vector of (near-)zero magnitude, that the
  result is undefined: the model divides by the magnitude, and makes the undefined case
  the outcome \<open>Undefined_result\<close>. Whether the helper raises there or returns a
  non-finite vector is not known from the source; the statements below either exclude this
  case by a hypothesis or hold whichever of the two happens.
\<close>

definition normalize_vector :: "vec3 \<Rightarrow> failure + vec3" where
  "normalize_vector v = (if vnorm v = 0 then Inl Undefined_result else Inr (vdiv v (vnorm v)))"

section \<open>The Orthogonalizer\<close>

text \<open>
  \<^verbatim>\<open>_orthogonalize_frame(self, x_vec, y_vec, z_vec)\<close>: Gram-Schmidt on the first two
  vectors; the third is overwritten by the cross product before it is ever read.
\<close>

definition orthogonalize_frame :: "vec3 \<Rightarrow> vec3 \<Rightarrow> vec3 \<Rightarrow> failure + (vec3 \<times> vec3 \<times> vec3)" where
  "orthogonalize_frame x_vec y_vec z_vec =
     bnd (normalize_vector x_vec) (\<lambda>x_vec.
     bnd (normalize_vector (vsub y_vec (smult (dot y_vec x_vec) x_vec))) (\<lambda>y_vec.
     bnd (normalize_vector (cross x_vec y_vec)) (\<lambda>z_vec.
     Inr (x_vec, y_vec, z_vec))))"

text \<open>
  \<^verbatim>\<open>np.linalg.solve(a, np.eye(3))\<close> for a 3x3 matrix \<open>a\<close>, given by its rows: the
  matrix \<open>X\<close> with \<open>a X = I\<close>, and \<^verbatim>\<open>LinAlgError\<close> when \<open>a\<close> is singular. The columns of
  the inverse are the cross products of the rows of \<open>a\<close>, over the determinant.
\<close>

fun det3 :: "mat3 \<Rightarrow> real" where
  "det3 (a, b, c) = dot a (cross b c)"

fun transpose3 :: "mat3 \<Rightarrow> mat3" where
  "transpose3 ((a1, a2, a3), (b1, b2, b3), (c1, c2, c3)) = ((a1, b1, c1), (a2, b2, c2), (a3, b3, c3))"

fun mat_vec :: "mat3 \<Rightarrow> vec3 \<Rightarrow> vec3" where
  "mat_vec (r1, r2, r3) p = (dot r1 p, dot r2 p, dot r3 p)"

fun mat_mul :: "mat3 \<Rightarrow> mat3 \<Rightarrow> mat3" where
  "mat_mul (a, b, c) m = (mat_vec (transpose3 m) a, mat_vec (transpose3 m) b, mat_vec (transpose3 m) c)"

definition eye3 :: mat3 where
  "eye3 = ((1, 0, 0), (0, 1, 0), (0, 0, 1))"

fun inverse3 :: "mat3 \<Rightarrow> mat3" where
  "inverse3 (a, b, c) =
     transpose3 (vdiv (cross b c) (det3 (a, b, c)),
                 vdiv (cross c a) (det3 (a, b, c)),
                 vdiv (cross a b) (det3 (a, b, c)))"

definition linalg_solve_eye :: "mat3 \<Rightarrow> failure + mat3" where
  "linalg_solve_eye a = (if det3 a = 0 then Inl LinAlgError else Inr (inverse3 a))"

section \<open>The transform component\<close>

text \<open>
  The module \<^verbatim>\<open>beavr.teleop.configs.constants.robots\<close> is not among the source files.
  The two hand-side names are the ones the constructor's docstring gives. The number of
  keypoints \<^verbatim>\<open>OCULUS_NUM_KEYPOINTS\<close> and the entries \<^verbatim>\<open>[0]\<close>, \<^verbatim>\<open>[1]\<close>, \<^verbatim>\<open>[-1]\<close> of
  \<^verbatim>\<open>OCULUS_JOINTS["knuckles"]\<close> are parameters of the model.
\<close>

definition LEFT :: string where
  "LEFT = ''left''"

definition RIGHT :: string where
  "RIGHT = ''right''"

record robots =
  OCULUS_NUM_KEYPOINTS :: nat
  knuckles_first :: nat
  knuckles_second :: nat
  knuckles_last :: nat

text \<open>\<^verbatim>\<open>class HandMode(IntEnum)\<close>.\<close>

datatype HandMode = ABSOLUTE | RELATIVE

text \<open>Python's logging levels; a message of the \<^verbatim>\<open>logging\<close> module is recorded by its level.\<close>

datatype log_level = DEBUG | INFO | WARNING | ERROR

subsection \<open>The keypoint logger\<close>

text \<open>
  \<^verbatim>\<open>log_keypoints.py\<close>. Wall-clock readings (\<^verbatim>\<open>time.time()\<close>, \<^verbatim>\<open>datetime.now()\<close>) are left
  out of the records. The log file has one fixed path per logger, chosen at construction;
  \<open>log_file\<close> is what that file holds, \<open>None\<close> before the first write.
\<close>

record frame_data =
  frame_id :: int
  fd_keypoints :: "vec3 list"
  fd_origin :: vec3
  fd_x_vector :: vec3
  fd_y_vector :: vec3
  fd_z_vector :: vec3

record saved_document =
  doc_hand_side :: string
  total_frames :: nat
  frames :: "frame_data list"
  doc_moving_average_limit :: int

record keypoint_logger =
  lg_hand_side :: string
  auto_save_interval :: int
  lg_moving_average_limit :: int
  frame_counter :: int
  logged_data :: "frame_data list"
  log_file :: "saved_document option"

text \<open>
  The fields that \<^verbatim>\<open>KeypointLogger.__init__\<close> sets: the counter at zero, the buffer empty.
\<close>

definition logger_init :: "string \<Rightarrow> int \<Rightarrow> int \<Rightarrow> keypoint_logger" where
  "logger_init hand_side auto_save_interval' moving_average_limit' =
     \<lparr>lg_hand_side = hand_side, auto_save_interval = auto_save_interval',
      lg_moving_average_limit = moving_average_limit', frame_counter = 0,
      logged_data = [], log_file = None\<rparr>"



text \<open>
  \<^verbatim>\<open>save_data\<close>. \<open>io_ok\<close> tells whether opening and writing the file succeed; when they do
  not, the \<^verbatim>\<open>except\<close> branch logs an error. What a failed write leaves on disk (the old
  contents when the file cannot be opened, a truncated file when the dump fails after
  opening) is not represented: \<open>log_file\<close> then keeps the last document written.
\<close>

definition save_data :: "bool \<Rightarrow> keypoint_logger \<Rightarrow> keypoint_logger \<times> log_level list" where
  "save_data io_ok self =
     (if length (logged_data self) = 0 then (self, [])
      else if io_ok then
        (self\<lparr>log_file := Some \<lparr>doc_hand_side = lg_hand_side self,
                                 total_frames = length (logged_data self),
                                 frames = logged_data self,
                                 doc_moving_average_limit = lg_moving_average_limit self\<rparr>\<rparr>,
         [INFO])
      else (self, [ERROR]))"

text \<open>
  \<^verbatim>\<open>log_frame\<close>. The coordinate frame is read at the indices 0 to 3; Python's \<^verbatim>\<open>%\<close> on
  integers is \<open>mod\<close>, and raises for a zero divisor.
\<close>

definition frame_record :: "int \<Rightarrow> vec3 list \<Rightarrow> vec3 list \<Rightarrow> frame_data" where
  "frame_record counter keypoints coordinate_frame =
     \<lparr>frame_id = counter, fd_keypoints = keypoints,
      fd_origin = coordinate_frame ! 0, fd_x_vector = coordinate_frame ! 1,
      fd_y_vector = coordinate_frame ! 2, fd_z_vector = coordinate_frame ! 3\<rparr>"

definition log_frame ::
  "bool \<Rightarrow> keypoint_logger \<Rightarrow> vec3 list \<Rightarrow> vec3 list \<Rightarrow> failure + (keypoint_logger \<times> log_level list)" where
  "log_frame io_ok self keypoints coordinate_frame =
     (if length coordinate_frame < 4 then Inl IndexError
      else
        let frame_data = frame_record (frame_counter self) keypoints coordinate_frame;
            self = self\<lparr>logged_data := logged_data self @ [frame_data],
                        frame_counter := frame_counter self + 1\<rparr>
        in if auto_save_interval self = 0 then Inl ZeroDivisionError
           else if frame_counter self mod auto_save_interval self = 0 then
             (case save_data io_ok self of
                (self, msgs) \<Rightarrow> Inr (self\<lparr>logged_data := []\<rparr>, msgs @ [DEBUG]))
           else Inr (self, []))"

text \<open>A sequence of \<^verbatim>\<open>log_frame\<close> calls on one logger, stopping at the first exception.\<close>

fun log_frames ::
  "keypoint_logger \<Rightarrow> (bool \<times> vec3 list \<times> vec3 list) list \<Rightarrow> failure + keypoint_logger" where
  "log_frames self [] = Inr self"
| "log_frames self ((io_ok, keypoints, coordinate_frame) # calls) =
     (case log_frame io_ok self keypoints coordinate_frame of
        Inl e \<Rightarrow> Inl e
      | Inr (self, msgs) \<Rightarrow> log_frames self calls)"

subsection \<open>The component and its constructor\<close>

text \<open>
  \<^verbatim>\<open>InputFrame\<close>, as received: the elements of \<^verbatim>\<open>np.asanyarray(input_frame.keypoints)\<close> in
  row-major order, and the \<^verbatim>\<open>is_relative\<close> flag. As published: the hand side, the
  smoothed keypoints, the flag and the frame vectors.
\<close>

record input_frame =
  in_keypoints :: "real list"
  in_is_relative :: bool

record output_frame =
  out_hand_side :: string
  out_keypoints :: "vec3 list"
  out_is_relative :: bool
  out_frame_vectors :: "vec3 list"

text \<open>
  What a tick leaves behind for an observer: a call of \<^verbatim>\<open>publisher_manager.publish\<close> with
  its topic (the hand side and which of the two topics) and payload, or a message of the
  \<^verbatim>\<open>logging\<close> module.
\<close>

datatype topic = coords_topic string | frame_topic string

datatype event = Publish topic output_frame | Log log_level

text \<open>
  The fields of \<^verbatim>\<open>self\<close> that the pipeline reads or writes. Host, ports, subscriber,
  publisher manager and timer are handles of collaborators and are not represented;
  their constructors are taken not to fail.
\<close>

record transformer =
  hand_side :: string
  absolute_mode :: HandMode
  relative_mode :: HandMode
  wrist_idx :: nat
  index_knuckle_idx :: nat
  middle_knuckle_idx :: nat
  pinky_knuckle_idx :: nat
  moving_average_limit :: int
  coord_moving_average_queue :: "vec3 list list"
  frame_moving_average_queue :: "vec3 list list"
  keypoint_logger :: "keypoint_logger option"


subsection \<open>Acquisition\<close>

text \<open>
  \<^verbatim>\<open>ndarray.reshape(n, 3)\<close>: the rows of three, and \<^verbatim>\<open>ValueError\<close> unless the array has
  exactly \<open>3 n\<close> elements.
\<close>

fun rows3 :: "real list \<Rightarrow> vec3 list" where
  "rows3 (a # b # c # xs) = (a, b, c) # rows3 xs"
| "rows3 xs = []"

definition reshape_n3 :: "nat \<Rightarrow> real list \<Rightarrow> failure + vec3 list" where
  "reshape_n3 n xs = (if length xs = n * 3 then Inr (rows3 xs) else Inl ValueError)"

text \<open>
  \<^verbatim>\<open>_get_hand_coords\<close>; the argument \<open>received\<close> is what \<^verbatim>\<open>recv_keypoints()\<close> returns. The
  pair \<^verbatim>\<open>(None, None)\<close> is \<open>None\<close>.
\<close>

definition get_hand_coords ::
  "robots \<Rightarrow> transformer \<Rightarrow> input_frame option \<Rightarrow> failure + (HandMode \<times> vec3 list) option" where
  "get_hand_coords rb self received =
     (case received of
        None \<Rightarrow> Inr None
      | Some input_frame \<Rightarrow>
          let data_type = (if in_is_relative input_frame then relative_mode self else absolute_mode self)
          in bnd (reshape_n3 (OCULUS_NUM_KEYPOINTS rb) (in_keypoints input_frame))
               (\<lambda>keypoints. Inr (Some (data_type, keypoints))))"

subsection \<open>Frame Stabilizer and Rotation Transformer\<close>

text \<open>Indexing an array of points; out of range is \<^verbatim>\<open>IndexError\<close>.\<close>

definition at_index :: "vec3 list \<Rightarrow> nat \<Rightarrow> failure + vec3" where
  "at_index xs i = (if i < length xs then Inr (xs ! i) else Inl IndexError)"

text \<open>\<^verbatim>\<open>_get_stable_coord_frame\<close>; the returned list of three vectors is the triple of rows.\<close>

definition get_stable_coord_frame :: "transformer \<Rightarrow> vec3 list \<Rightarrow> failure + mat3" where
  "get_stable_coord_frame self hand_coords =
     bnd (at_index hand_coords (wrist_idx self)) (\<lambda>wrist.
     bnd (at_index hand_coords (index_knuckle_idx self)) (\<lambda>index_knuckle.
     bnd (at_index hand_coords (pinky_knuckle_idx self)) (\<lambda>pinky_knuckle.
     bnd (at_index hand_coords (middle_knuckle_idx self)) (\<lambda>middle_knuckle.
     let v1 = vsub index_knuckle wrist;
         v2 = vsub pinky_knuckle wrist;
         v3 = vsub middle_knuckle wrist
     in bnd (normalize_vector (cross v1 v3)) (\<lambda>palm_normal.
        bnd (normalize_vector (vdiv (vadd (vadd v1 v2) v3) 3)) (\<lambda>palm_direction.
        bnd (normalize_vector (cross palm_direction palm_normal)) (\<lambda>cross_product.
        orthogonalize_frame cross_product palm_direction palm_normal)))))))"

text \<open>\<^verbatim>\<open>_get_stable_hand_dir_frame\<close>, with its two branches on the hand side.\<close>

definition get_stable_hand_dir_frame :: "transformer \<Rightarrow> vec3 list \<Rightarrow> failure + vec3 list" where
  "get_stable_hand_dir_frame self hand_coords =
     bnd (at_index hand_coords (wrist_idx self)) (\<lambda>wrist.
     bnd (at_index hand_coords (index_knuckle_idx self)) (\<lambda>index_knuckle.
     bnd (at_index hand_coords (pinky_knuckle_idx self)) (\<lambda>pinky_knuckle.
     bnd (at_index hand_coords (middle_knuckle_idx self)) (\<lambda>middle_knuckle.
     let v1 = vsub index_knuckle wrist;
         v2 = vsub pinky_knuckle wrist;
         v3 = vsub middle_knuckle wrist
     in bnd (if hand_side self = RIGHT
             then bnd (normalize_vector (cross v1 v3)) (\<lambda>palm_normal.
                  bnd (normalize_vector (vdiv (vadd (vadd v1 v2) v3) 3)) (\<lambda>palm_direction.
                  bnd (normalize_vector (cross palm_direction palm_normal)) (\<lambda>cross_product.
                  Inr (palm_normal, palm_direction, cross_product))))
             else bnd (normalize_vector (cross v1 v3)) (\<lambda>palm_normal.
                  bnd (normalize_vector (vdiv (vadd (vadd v1 v2) v3) 3)) (\<lambda>palm_direction.
                  bnd (normalize_vector (cross palm_direction palm_normal)) (\<lambda>cross_product.
                  Inr (palm_normal, palm_direction, cross_product)))))
          (\<lambda>(palm_normal, palm_direction, cross_product).
        bnd (orthogonalize_frame cross_product palm_normal palm_direction) (\<lambda>(x_vec, y_vec, z_vec).
        Inr [wrist, x_vec, y_vec, z_vec]))))))"

text \<open>
  \<^verbatim>\<open>transform_keypoints\<close>. \<^verbatim>\<open>hand_coords[0]\<close> is subtracted from every row; the rotation
  matrix is the transpose of the solution of the linear system, and
  \<^verbatim>\<open>(rotation_matrix @ translated_coords.T).T\<close> applies it to every row.
\<close>

definition translate_coords :: "vec3 \<Rightarrow> vec3 list \<Rightarrow> vec3 list" where
  "translate_coords wrist hand_coords = map (\<lambda>p. vsub p wrist) hand_coords"

definition transform_keypoints :: "transformer \<Rightarrow> vec3 list \<Rightarrow> failure + (vec3 list \<times> vec3 list)" where
  "transform_keypoints self hand_coords =
     (case hand_coords of
        [] \<Rightarrow> Inl IndexError
      | first_row # _ \<Rightarrow>
          let translated_coords = translate_coords first_row hand_coords
          in bnd (get_stable_coord_frame self translated_coords) (\<lambda>original_coord_frame.
             bnd (linalg_solve_eye original_coord_frame) (\<lambda>solution.
             let rotation_matrix = transpose3 solution;
                 transformed_keypoints = map (mat_vec rotation_matrix) translated_coords
             in bnd (get_stable_hand_dir_frame self hand_coords) (\<lambda>coordinate_frame.
                Inr (transformed_keypoints, coordinate_frame)))))"

subsection \<open>Temporal Smoother\<close>

text \<open>
  Modelled from the spec: \<^verbatim>\<open>moving_average\<close> is imported from
  \<^verbatim>\<open>beavr.teleop.common.math.vectorops\<close>, which is not among the source files. The
  specification of the Temporal Smoother reads: append the latest sample; if the window
  exceeds K, evict the oldest; compute the elementwise arithmetic mean across the window,
  producing a smoothed keypoint set or frame of identical shape. The queue is the
  caller's list, changed in place, so the new queue is returned with the mean. The mean
  of an empty window, or of samples of different shapes, is not defined by these words:
  it is the outcome \<open>Undefined_result\<close>.
\<close>

definition window_push :: "vec3 list \<Rightarrow> vec3 list list \<Rightarrow> int \<Rightarrow> vec3 list list" where
  "window_push sample queue limit =
     (let queue = queue @ [sample]
      in if int (length queue) > limit then tl queue else queue)"

definition vsum :: "vec3 list \<Rightarrow> vec3" where
  "vsum vs = foldr vadd vs (0, 0, 0)"

definition window_mean :: "vec3 list list \<Rightarrow> failure + vec3 list" where
  "window_mean queue =
     (case queue of
        [] \<Rightarrow> Inl Undefined_result
      | first_sample # _ \<Rightarrow>
          if list_all (\<lambda>s. length s = length first_sample) queue
          then Inr (map (\<lambda>i. vdiv (vsum (map (\<lambda>s. s ! i) queue)) (real (length queue)))
                      [0..<length first_sample])
          else Inl Undefined_result)"

definition moving_average ::
  "vec3 list \<Rightarrow> vec3 list list \<Rightarrow> int \<Rightarrow> vec3 list list \<times> (failure + vec3 list)" where
  "moving_average sample queue limit =
     (let queue = window_push sample queue limit in (queue, window_mean queue))"

subsection \<open>Streaming Loop Controller\<close>

text \<open>\<^verbatim>\<open>_log_frame\<close>: forwards to the logger when there is one.\<close>

definition transformer_log_frame ::
  "bool \<Rightarrow> transformer \<Rightarrow> vec3 list \<Rightarrow> vec3 list \<Rightarrow> failure + (transformer \<times> log_level list)" where
  "transformer_log_frame io_ok self keypoints coordinate_frame =
     (case keypoint_logger self of
        None \<Rightarrow> Inr (self, [])
      | Some lg \<Rightarrow>
          bnd (log_frame io_ok lg keypoints coordinate_frame) (\<lambda>(lg, msgs).
          Inr (self\<lparr>keypoint_logger := Some lg\<rparr>, msgs)))"

text \<open>
  The lines of \<^verbatim>\<open>stream\<close> that re-orthogonalize the averaged frame: the origin is kept,
  the three vectors are normalized, passed through \<open>orthogonalize_frame\<close>, and the frame
  is rebuilt as a list of four.
\<close>

definition reorthogonalize_frame :: "vec3 list \<Rightarrow> failure + vec3 list" where
  "reorthogonalize_frame averaged_coordinate_frame =
     bnd (at_index averaged_coordinate_frame 0) (\<lambda>origin.
     bnd (bnd (at_index averaged_coordinate_frame 1) normalize_vector) (\<lambda>x_vec.
     bnd (bnd (at_index averaged_coordinate_frame 2) normalize_vector) (\<lambda>y_vec.
     bnd (bnd (at_index averaged_coordinate_frame 3) normalize_vector) (\<lambda>z_vec.
     bnd (orthogonalize_frame x_vec y_vec z_vec) (\<lambda>(x_vec, y_vec, z_vec).
     Inr [origin, x_vec, y_vec, z_vec])))))"

text \<open>
  The body of the loop of \<^verbatim>\<open>stream\<close> from the call of \<^verbatim>\<open>transform_keypoints\<close> to the
  reconstruction of the orthogonal frame: the transform, the two moving averages, and the
  re-orthogonalization of the averaged frame.
\<close>

definition stream_smooth ::
  "transformer \<Rightarrow> vec3 list \<Rightarrow> failure + (transformer \<times> vec3 list \<times> vec3 list)" where
  "stream_smooth self hand_coords =
     bnd (transform_keypoints self hand_coords) (\<lambda>(transformed_keypoints, coordinate_frame).
     case moving_average transformed_keypoints (coord_moving_average_queue self)
            (moving_average_limit self) of
       (coord_queue, coord_mean) \<Rightarrow>
     bnd coord_mean (\<lambda>averaged_keypoints.
     case moving_average coordinate_frame (frame_moving_average_queue self)
            (moving_average_limit self) of
       (frame_queue, frame_mean) \<Rightarrow>
     bnd frame_mean (\<lambda>averaged_coordinate_frame.
     bnd (reorthogonalize_frame averaged_coordinate_frame) (\<lambda>averaged_coordinate_frame.
     Inr (self\<lparr>coord_moving_average_queue := coord_queue,
                frame_moving_average_queue := frame_queue\<rparr>,
          averaged_keypoints, averaged_coordinate_frame)))))"

text \<open>
  What the environment gives one iteration of the loop: the result of
  \<^verbatim>\<open>recv_keypoints()\<close>, and whether a write of the log file would succeed.
\<close>

record tick_input =
  received :: "input_frame option"
  io_ok :: bool

text \<open>
  One iteration of \<^verbatim>\<open>while True\<close> in \<^verbatim>\<open>stream\<close>: the events it emits, in order, and either
  the exception that leaves the loop or the state for the next iteration. The source
  has no \<^verbatim>\<open>try\<close> in this loop. The timer calls and the publisher are collaborators; a
  publish is taken to succeed.
\<close>

definition stream_tick :: "robots \<Rightarrow> transformer \<Rightarrow> tick_input \<Rightarrow> event list \<times> (failure + transformer)" where
  "stream_tick rb self inp =
     (case get_hand_coords rb self (received inp) of
        Inl e \<Rightarrow> ([], Inl e)
      | Inr None \<Rightarrow> ([], Inr self)
      | Inr (Some (data_type, hand_coords)) \<Rightarrow>
          (case stream_smooth self hand_coords of
             Inl e \<Rightarrow> ([], Inl e)
           | Inr (self, averaged_keypoints, averaged_coordinate_frame) \<Rightarrow>
               let data = \<lparr>out_hand_side = hand_side self,
                           out_keypoints = averaged_keypoints,
                           out_is_relative = (data_type = relative_mode self),
                           out_frame_vectors = averaged_coordinate_frame\<rparr>
               in (case transformer_log_frame (io_ok inp) self averaged_keypoints
                          averaged_coordinate_frame of
                     Inl e \<Rightarrow> ([Publish (coords_topic (hand_side self)) data], Inl e)
                   | Inr (self, msgs) \<Rightarrow>
                       ([Publish (coords_topic (hand_side self)) data] @ map Log msgs
                          @ [Publish (frame_topic (hand_side self)) data],
                        Inr self))))"

text \<open>
  The loop over the iterations that a finite sequence of inputs drives. The loop itself
  has no exit: it ends only by an exception, and a run over a finite prefix of its
  inputs returns the state it has reached.
\<close>

fun stream :: "robots \<Rightarrow> transformer \<Rightarrow> tick_input list \<Rightarrow> event list \<times> (failure + transformer)" where
  "stream rb self [] = ([], Inr self)"
| "stream rb self (inp # inps) =
     (case stream_tick rb self inp of
        (evs, Inl e) \<Rightarrow> (evs, Inl e)
      | (evs, Inr self) \<Rightarrow>
          (case stream rb self inps of (evs', r) \<Rightarrow> (evs @ evs', r)))"

subsection \<open>What a run produces\<close>


fun coords_payload :: "event \<Rightarrow> output_frame list" where
  "coords_payload (Publish (coords_topic h) data) = [data]"
| "coords_payload (Publish (frame_topic h) data) = []"
| "coords_payload (Log l) = []"

definition coords_payloads :: "event list \<Rightarrow> output_frame list" where
  "coords_payloads evs = concat (map coords_payload evs)"


text \<open>
  The record that the call number \<open>k\<close> (counted from zero) of a sequence of calls
  appends to the buffer of a logger that started with its counter at zero, and the saved
  document that holds the records of the calls \<open>i\<close> to \<open>j - 1\<close>.
\<close>

definition call_record :: "(bool \<times> vec3 list \<times> vec3 list) list \<Rightarrow> nat \<Rightarrow> frame_data" where
  "call_record calls k = frame_record (int k) (fst (snd (calls ! k))) (snd (snd (calls ! k)))"

definition document_of ::
  "string \<Rightarrow> int \<Rightarrow> (bool \<times> vec3 list \<times> vec3 list) list \<Rightarrow> nat \<Rightarrow> nat \<Rightarrow> saved_document" where
  "document_of hs K calls i j =
     \<lparr>doc_hand_side = hs, total_frames = j - i, frames = map (call_record calls) [i..<j],
      doc_moving_average_limit = K\<rparr>"

text \<open>
  The state of a logger after a sequence of calls from its initial state, with interval
  \<open>M\<close>: the counter is the number of calls, the buffer holds the records since the last
  multiple of \<open>M\<close>, and, when every write succeeded, the file holds the last full block
  of \<open>M\<close> records.
\<close>

definition logger_inv ::
  "string \<Rightarrow> int \<Rightarrow> int \<Rightarrow> (bool \<times> vec3 list \<times> vec3 list) list \<Rightarrow> keypoint_logger \<Rightarrow> bool" where
  "logger_inv hs M K cs lg =
     (let n = length cs; m = nat M in
      frame_counter lg = int n \<and> auto_save_interval lg = M \<and> lg_hand_side lg = hs
      \<and> lg_moving_average_limit lg = K
      \<and> logged_data lg = map (call_record cs) [n - n mod m..<n]
      \<and> (list_all fst cs \<longrightarrow>
           log_file lg = (if n < m then None
                          else Some (document_of hs K cs ((n div m - 1) * m) (n div m * m))))) "

section \<open>A concrete configuration\<close>



definition example_robots :: robots where
  "example_robots = \<lparr>OCULUS_NUM_KEYPOINTS = 4, knuckles_first = 1, knuckles_second = 2, knuckles_last = 3\<rparr>"

definition example_transformer :: transformer where
  "example_transformer =
     \<lparr>hand_side = RIGHT, absolute_mode = ABSOLUTE, relative_mode = RELATIVE, wrist_idx = 0,
      index_knuckle_idx = 1, middle_knuckle_idx = 2, pinky_knuckle_idx = 3,
      moving_average_limit = 2, coord_moving_average_queue = [],
      frame_moving_average_queue = [], keypoint_logger = None\<rparr>"

definition example_pose :: "vec3 list" where
  "example_pose = [(1, 1, 1), (2, 1, 1), (1, 2, 1), (3, 0, 1)]"

definition example_input :: tick_input where
  "example_input =
     \<lparr>received = Some \<lparr>in_keypoints = [1, 1, 1, 2, 1, 1, 1, 2, 1, 3, 0, 1], in_is_relative = False\<rparr>,
      io_ok = True\<rparr>"




text \<open>A tick of the same configuration in which all four keypoints coincide.\<close>

definition degenerate_input :: tick_input where
  "degenerate_input =
     \<lparr>received = Some \<lparr>in_keypoints = [0, 0, 0, 0, 0, 0, 0, 0, 0, 0, 0, 0], in_is_relative = False\<rparr>,
      io_ok = True\<rparr>"

text \<open>Three calls of \<open>log_frame\<close>, each with a successful write, for a logger that saves every two frames.\<close>

definition example_calls :: "(bool \<times> vec3 list \<times> vec3 list) list" where
  "example_calls =
     [(True, [(0, 0, 0)], [(0, 0, 0), (1, 0, 0), (0, 1, 0), (0, 0, 1)]),
      (True, [(1, 0, 0)], [(1, 0, 0), (1, 0, 0), (0, 1, 0), (0, 0, 1)]),
      (True, [(2, 0, 0)], [(2, 0, 0), (1, 0, 0), (0, 1, 0), (0, 0, 1)])]"

section \<open>Vector algebra\<close>

lemma dot_commute: "dot a b = dot b a"
  by (cases a, cases b) simp

lemma dot_vdiv: "dot (vdiv a c) (vdiv b d) = dot a b / (c * d)"
  by (cases a, cases b) (simp add: add_divide_distrib)

lemma dot_self_nonneg: "0 \<le> dot v v"
  by (cases v) simp

lemma vnorm_sq: "(vnorm v)\<^sup>2 = dot v v"
  by (simp add: vnorm_def dot_self_nonneg)

lemma vnorm_zero_iff: "vnorm v = 0 \<longleftrightarrow> dot v v = 0"
  by (simp add: vnorm_def)

lemma vnorm_one_iff: "vnorm v = 1 \<longleftrightarrow> dot v v = 1"
  by (simp add: vnorm_def)

lemma vnorm_vdiv_self: "vnorm v \<noteq> 0 \<Longrightarrow> vnorm (vdiv v (vnorm v)) = 1"
proof -
  assume nz: "vnorm v \<noteq> 0"
  have "dot (vdiv v (vnorm v)) (vdiv v (vnorm v)) = dot v v / (vnorm v)\<^sup>2"
    by (simp add: dot_vdiv power2_eq_square)
  also have "\<dots> = 1" using nz by (simp add: vnorm_sq vnorm_zero_iff)
  finally show ?thesis by (simp add: vnorm_one_iff)
qed

lemma dot_vsub_left: "dot (vsub a b) c = dot a c - dot b c"
  by (cases a, cases b, cases c) (simp add: algebra_simps)

lemma dot_smult_left: "dot (smult k a) b = k * dot a b"
  by (cases a, cases b) (simp add: algebra_simps)

lemma dot_project_out: "dot x x = 1 \<Longrightarrow> dot (vsub y (smult (dot y x) x)) x = 0"
  by (simp add: dot_vsub_left dot_smult_left)

lemma dot_cross_left: "dot (cross a b) a = 0"
  by (cases a, cases b) (simp add: algebra_simps)

lemma dot_cross_right: "dot (cross a b) b = 0"
  by (cases a, cases b) (simp add: algebra_simps)

lemma lagrange: "dot (cross a b) (cross a b) = dot a a * dot b b - (dot a b)\<^sup>2"
  by (cases a, cases b) (simp add: algebra_simps power2_eq_square)

lemma vdiv_one: "vdiv v 1 = v"
  by (cases v) simp

lemma cross_unit_orth: "dot a a = 1 \<Longrightarrow> dot b b = 1 \<Longrightarrow> dot a b = 0 \<Longrightarrow> vnorm (cross a b) = 1"
  by (simp add: vnorm_one_iff lagrange)

lemma normalize_vector_Inr: "vnorm v \<noteq> 0 \<Longrightarrow> normalize_vector v = Inr (vdiv v (vnorm v))"
  by (simp add: normalize_vector_def)

lemma normalize_vector_unit: "vnorm v = 1 \<Longrightarrow> normalize_vector v = Inr v"
  by (simp add: normalize_vector_def vdiv_one)

lemma bnd_Inr: "bnd (Inr x) f = f x"
  by (simp add: bnd_def)

lemma gram_schmidt_steps:
  assumes a: "vnorm a \<noteq> 0"
    and q: "vnorm (vsub b (smult (dot b (vdiv a (vnorm a))) (vdiv a (vnorm a)))) \<noteq> 0"
  defines "x \<equiv> vdiv a (vnorm a)"
  defines "y \<equiv> vdiv (vsub b (smult (dot b x) x)) (vnorm (vsub b (smult (dot b x) x)))"
  shows "vnorm x = 1" and "vnorm y = 1" and "dot x y = 0" and "vnorm (cross x y) = 1"
proof -
  let ?q = "vsub b (smult (dot b x) x)"
  have qn: "vnorm ?q \<noteq> 0" using q by (simp add: x_def)
  show x1: "vnorm x = 1" using a by (simp add: x_def vnorm_vdiv_self)
  show y1: "vnorm y = 1" using qn by (simp add: y_def vnorm_vdiv_self)
  have qx: "dot ?q x = 0" using x1 by (simp add: dot_project_out vnorm_one_iff)
  have "dot y x = dot ?q x / (vnorm ?q * vnorm x)"
    using dot_vdiv [of ?q "vnorm ?q" x 1] by (simp add: y_def vdiv_one x1)
  then have "dot y x = 0" using qx by simp
  then show xy: "dot x y = 0" by (simp add: dot_commute)
  show "vnorm (cross x y) = 1"
    using x1 y1 xy by (simp add: cross_unit_orth vnorm_one_iff)
qed

lemma orthogonalize_frame_defined:
  assumes a: "vnorm a \<noteq> 0"
    and q: "vnorm (vsub b (smult (dot b (vdiv a (vnorm a))) (vdiv a (vnorm a)))) \<noteq> 0"
  shows "\<exists>x y z. orthogonalize_frame a b c = Inr (x, y, z)"
proof -
  let ?x = "vdiv a (vnorm a)"
  let ?y = "vdiv (vsub b (smult (dot b ?x) ?x)) (vnorm (vsub b (smult (dot b ?x) ?x)))"
  have "orthogonalize_frame a b c = Inr (?x, ?y, vdiv (cross ?x ?y) (vnorm (cross ?x ?y)))"
    unfolding orthogonalize_frame_def
    using a q gram_schmidt_steps(4) [OF a q]
    by (simp add: normalize_vector_Inr bnd_Inr)
  then show ?thesis by blast
qed

section \<open>The Orthogonalizer returns an orthonormal right-handed basis\<close>

text \<open>
  Claim C2. For every triple of input vectors in which no intermediate vector has
  magnitude zero (the first input, and the second input with its component along the
  normalized first input removed), \<open>orthogonalize_frame\<close> returns three vectors: the
  normalized first input; the second input with the first output projected out,
  normalized; and the normalized cross product of these two. Each has length one, they
  are pairwise orthogonal, the third is the cross product of the first two, and the
  result is the same whatever the third input is. The cross product of the two outputs
  always has length one, so it is no further condition.
\<close>

theorem orthogonalize_frame_orthonormal:
  assumes a: "vnorm a \<noteq> 0"
    and p: "vnorm (vsub b (smult (dot b (vdiv a (vnorm a))) (vdiv a (vnorm a)))) \<noteq> 0"
  shows "\<exists>x y z. (\<forall>c. orthogonalize_frame a b c = Inr (x, y, z))
      \<and> x = vdiv a (vnorm a)
      \<and> y = vdiv (vsub b (smult (dot b x) x)) (vnorm (vsub b (smult (dot b x) x)))
      \<and> z = vdiv (cross x y) (vnorm (cross x y))
      \<and> vnorm x = 1 \<and> vnorm y = 1 \<and> vnorm z = 1
      \<and> dot x y = 0 \<and> dot y z = 0 \<and> dot x z = 0
      \<and> z = cross x y"
proof -
  define x where "x = vdiv a (vnorm a)"
  define q where "q = vsub b (smult (dot b x) x)"
  define y where "y = vdiv q (vnorm q)"
  define z where "z = vdiv (cross x y) (vnorm (cross x y))"
  have q: "vnorm q \<noteq> 0" using p by (simp add: q_def x_def)
  note steps = gram_schmidt_steps [OF a p, folded x_def, folded q_def, folded y_def]
  have x1: "vnorm x = 1" and y1: "vnorm y = 1" and xy: "dot x y = 0"
    and c1: "vnorm (cross x y) = 1"
    by (rule steps)+
  have zc: "z = cross x y" using c1 by (simp add: z_def vdiv_one)
  have z1: "vnorm z = 1" using c1 zc by simp
  have yz: "dot y z = 0" using dot_cross_right [of x y] by (simp add: zc dot_commute)
  have xz: "dot x z = 0" using dot_cross_left [of x y] by (simp add: zc dot_commute)
  have run: "orthogonalize_frame a b c = Inr (x, y, z)" for c
    unfolding orthogonalize_frame_def
    using a q c1 zc
    by (simp add: normalize_vector_Inr bnd_Inr x_def [symmetric] q_def [symmetric]
        y_def [symmetric] vdiv_one)
  show ?thesis
    using run x1 y1 z1 xy yz xz zc
    by (intro exI [of _ x] exI [of _ y] exI [of _ z]) (simp add: x_def y_def q_def z_def)
qed

theorem orthogonalize_frame_orthonormal_witness:
  "vnorm (2, 0, 0) \<noteq> 0
   \<and> vnorm (vsub (1, 2, 0) (smult (dot (1, 2, 0) (vdiv (2, 0, 0) (vnorm (2, 0, 0)))) (vdiv (2, 0, 0) (vnorm (2, 0, 0))))) \<noteq> 0
   \<and> orthogonalize_frame (2, 0, 0) (1, 2, 0) (7, 7, 7) = Inr ((1, 0, 0), (0, 1, 0), (0, 0, 1))"
proof -
  have n: "vnorm (2, 0, 0) = 2" by (simp add: vnorm_def power2_eq_square [symmetric])
  have h1: "vnorm (2, 0, 0) \<noteq> 0" by (simp add: n)
  have m: "vnorm (vsub (1, 2, 0) (smult (dot (1, 2, 0) (vdiv (2, 0, 0) (vnorm (2, 0, 0)))) (vdiv (2, 0, 0) (vnorm (2, 0, 0))))) = 2"
    by (simp add: n vnorm_def)
  have h2: "vnorm (vsub (1, 2, 0) (smult (dot (1, 2, 0) (vdiv (2, 0, 0) (vnorm (2, 0, 0)))) (vdiv (2, 0, 0) (vnorm (2, 0, 0))))) \<noteq> 0"
    unfolding m by simp
  from orthogonalize_frame_orthonormal [OF h1 h2]
  obtain x y z where run: "\<forall>c. orthogonalize_frame (2, 0, 0) (1, 2, 0) c = Inr (x, y, z)"
    and x: "x = vdiv (2, 0, 0) (vnorm (2, 0, 0))"
    and y: "y = vdiv (vsub (1, 2, 0) (smult (dot (1, 2, 0) x) x)) (vnorm (vsub (1, 2, 0) (smult (dot (1, 2, 0) x) x)))"
    and z: "z = cross x y"
    by blast
  have x': "x = (1, 0, 0)" by (simp add: x n)
  have y': "y = (0, 1, 0)" by (simp add: y x') (simp add: vnorm_def)
  have z': "z = (0, 0, 1)" by (simp add: z x' y')
  show ?thesis using h1 h2 run x' y' z' by blast
qed

section \<open>Re-orthogonalization is idempotent\<close>

text \<open>
  Claim C5. For every frame whose three basis vectors have length one, are pairwise
  orthogonal and are right-handed (the third is the cross product of the first two),
  \<open>orthogonalize_frame\<close> returns the same three vectors.
\<close>

theorem orthogonalize_frame_idempotent:
  assumes "vnorm x = 1" and "vnorm y = 1" and "vnorm z = 1"
    and "dot x y = 0" and "dot y z = 0" and "dot x z = 0"
    and "z = cross x y"
  shows "orthogonalize_frame x y z = Inr (x, y, z)"
proof -
  have q: "vsub y (smult (dot y x) x) = y"
    using assms(4) by (cases x, cases y) (simp add: dot_commute)
  show ?thesis
    unfolding orthogonalize_frame_def
    using assms by (simp add: normalize_vector_unit bnd_Inr q)
qed

theorem orthogonalize_frame_idempotent_witness:
  "vnorm (0, 1, 0) = 1 \<and> vnorm (0, 0, 1) = 1 \<and> vnorm (1, 0, 0) = 1
   \<and> dot (0, 1, 0) (0, 0, 1) = 0 \<and> dot (0, 0, 1) (1, 0, 0) = 0 \<and> dot (0, 1, 0) (1, 0, 0) = 0
   \<and> (1, 0, 0) = cross (0, 1, 0) (0, 0, 1)
   \<and> orthogonalize_frame (0, 1, 0) (0, 0, 1) (1, 0, 0) = Inr ((0, 1, 0), (0, 0, 1), (1, 0, 0))"
proof -
  have u: "vnorm (0, 1, 0) = 1" "vnorm (0, 0, 1) = 1" "vnorm (1, 0, 0) = 1"
    by (simp_all add: vnorm_def)
  have d: "dot (0, 1, 0) (0, 0, 1) = 0" "dot (0, 0, 1) (1, 0, 0) = 0" "dot (0, 1, 0) (1, 0, 0) = 0"
    by simp_all
  have r: "(1, 0, 0) = cross (0, 1, 0) (0, 0, 1)" by simp
  have run: "orthogonalize_frame (0, 1, 0) (0, 0, 1) (1, 0, 0) = Inr ((0, 1, 0), (0, 0, 1), (1, 0, 0))"
    by (rule orthogonalize_frame_idempotent [OF u d r])
  show ?thesis
    by (intro conjI u d r run)
qed

section \<open>The two hand sides compute the same hand-direction frame\<close>

text \<open>
  Claim C6. For every keypoint set, \<open>get_stable_hand_dir_frame\<close> with the hand side
  left returns what it returns with the hand side right, failures included: the two
  branches on the hand side hold the same formulas.
\<close>

theorem hand_dir_frame_left_right:
  "get_stable_hand_dir_frame (self\<lparr>hand_side := LEFT\<rparr>) hand_coords
     = get_stable_hand_dir_frame (self\<lparr>hand_side := RIGHT\<rparr>) hand_coords"
  by (simp add: get_stable_hand_dir_frame_def)

section \<open>A tick without data\<close>

text \<open>
  Claim C8. When the acquisition returns nothing, the iteration emits no event (no
  publish and no log message), leaves the component as it was (both windows and the
  logger included), raises nothing, and the loop goes on with the next iteration.
\<close>

theorem no_data_tick_is_silent:
  "stream_tick rb self (inp\<lparr>received := None\<rparr>) = ([], Inr self)
   \<and> stream rb self (inp\<lparr>received := None\<rparr> # inps) = stream rb self inps"
  by (simp add: stream_tick_def get_hand_coords_def)

section \<open>The constructor does not check the window size\<close>




section \<open>A tick with the wrong number of keypoints\<close>

text \<open>
  Claim C7, as stated, fails: with four keypoints configured, a tick that brings one
  keypoint is not skipped with a warning. It emits nothing and leaves the loop with
  \<^verbatim>\<open>ValueError\<close>.
\<close>

theorem malformed_tick_not_skipped:
  "stream_tick example_robots example_transformer
      \<lparr>received = Some \<lparr>in_keypoints = [0, 0, 0], in_is_relative = False\<rparr>, io_ok = True\<rparr>
     = ([], Inl ValueError)
   \<and> stream_tick example_robots example_transformer
      \<lparr>received = Some \<lparr>in_keypoints = [0, 0, 0], in_is_relative = False\<rparr>, io_ok = True\<rparr>
     \<noteq> ([Log WARNING], Inr example_transformer)"
  by (simp add: stream_tick_def get_hand_coords_def reshape_n3_def bnd_def example_robots_def)

text \<open>
  Claim C7, amended. For every tick whose acquired keypoint data does not have exactly
  three times the configured number of elements, the reshape in \<open>get_hand_coords\<close>
  raises \<^verbatim>\<open>ValueError\<close> and nothing catches it: the tick emits no warning and publishes
  nothing, and the loop ends with that exception, whatever inputs would have followed.
\<close>

theorem malformed_tick_raises:
  assumes "received inp = Some frame"
    and "length (in_keypoints frame) \<noteq> OCULUS_NUM_KEYPOINTS rb * 3"
  shows "stream_tick rb self inp = ([], Inl ValueError)
    \<and> stream rb self (inp # inps) = ([], Inl ValueError)"
  using assms by (simp add: stream_tick_def get_hand_coords_def reshape_n3_def bnd_def)

theorem malformed_tick_raises_witness:
  "received \<lparr>received = Some \<lparr>in_keypoints = [0, 0, 0], in_is_relative = False\<rparr>, io_ok = True\<rparr>
     = Some \<lparr>in_keypoints = [0, 0, 0], in_is_relative = False\<rparr>
   \<and> length (in_keypoints \<lparr>in_keypoints = [0, 0, 0], in_is_relative = False\<rparr>)
       \<noteq> OCULUS_NUM_KEYPOINTS example_robots * 3
   \<and> stream example_robots example_transformer
        [\<lparr>received = Some \<lparr>in_keypoints = [0, 0, 0], in_is_relative = False\<rparr>, io_ok = True\<rparr>, example_input]
       = ([], Inl ValueError)"
proof -
  have h1: "received \<lparr>received = Some \<lparr>in_keypoints = [0, 0, 0], in_is_relative = False\<rparr>, io_ok = True\<rparr>
     = Some \<lparr>in_keypoints = [0, 0, 0], in_is_relative = False\<rparr>" by simp
  have h2: "length (in_keypoints \<lparr>in_keypoints = [0, 0, 0], in_is_relative = False\<rparr>)
       \<noteq> OCULUS_NUM_KEYPOINTS example_robots * 3" by (simp add: example_robots_def)
  show ?thesis
    using malformed_tick_raises [OF h1 h2, of example_transformer "[example_input]"] h1 h2 by blast
qed

section \<open>The logger's buffer and its auto-save\<close>

lemma log_frames_snoc:
  "log_frames lg (cs @ [c]) =
     bnd (log_frames lg cs) (\<lambda>lg'.
     bnd (log_frame (fst c) lg' (fst (snd c)) (snd (snd c))) (\<lambda>r. Inr (fst r)))"
proof (induction cs arbitrary: lg)
  case Nil
  show ?case by (cases c) (simp add: bnd_def split: sum.splits prod.splits)
next
  case (Cons a cs)
  show ?case
    by (cases a) (simp add: Cons.IH bnd_def split: sum.splits prod.splits)
qed

lemma call_record_snoc: "k < length cs \<Longrightarrow> call_record (cs @ [c]) k = call_record cs k"
  by (simp add: call_record_def nth_append)

lemma map_call_record_snoc:
  "j \<le> length cs \<Longrightarrow> map (call_record (cs @ [c])) [i..<j] = map (call_record cs) [i..<j]"
  by (simp add: call_record_snoc)

lemma call_record_last:
  "call_record (cs @ [c]) (length cs) = frame_record (int (length cs)) (fst (snd c)) (snd (snd c))"
  by (simp add: call_record_def)

lemma logger_inv_init: "0 < M \<Longrightarrow> logger_inv hs M K [] (logger_init hs M K)"
  by (simp add: logger_inv_def logger_init_def)

lemma mod_Suc_cases:
  fixes n m :: nat
  assumes "0 < m"
  shows "(Suc n mod m = 0 \<and> n mod m = m - 1 \<and> Suc n div m = Suc (n div m))
       \<or> (Suc n mod m = Suc (n mod m) \<and> Suc n div m = n div m)"
proof -
  have ms: "Suc n mod m = (if Suc (n mod m) = m then 0 else Suc (n mod m))" by (rule mod_Suc)
  have ds: "Suc n div m = (if Suc n mod m = 0 then Suc (n div m) else n div m)" by (rule div_Suc)
  show ?thesis
  proof (cases "Suc (n mod m) = m")
    case True
    with ms have z: "Suc n mod m = 0" by simp
    moreover have "n mod m = m - 1" using True by arith
    moreover have "Suc n div m = Suc (n div m)" using ds z by simp
    ultimately show ?thesis by simp
  next
    case False
    with ms have z: "Suc n mod m = Suc (n mod m)" by simp
    moreover have "Suc n div m = n div m" using ds z by simp
    ultimately show ?thesis by simp
  qed
qed

lemma logger_inv_step:
  assumes M: "0 < M" and inv: "logger_inv hs M K cs lg" and len: "4 \<le> length (snd (snd c))"
  shows "\<exists>lg' msgs. log_frame (fst c) lg (fst (snd c)) (snd (snd c)) = Inr (lg', msgs)
           \<and> logger_inv hs M K (cs @ [c]) lg'"
proof -
  define n where "n = length cs"
  define m where "m = nat M"
  have m: "0 < m" "M = int m" using M by (simp_all add: m_def)
  have fc: "frame_counter lg = int n" and asi: "auto_save_interval lg = M"
    and hs: "lg_hand_side lg = hs" and K: "lg_moving_average_limit lg = K"
    and buf: "logged_data lg = map (call_record cs) [n - n mod m..<n]"
    and fl: "list_all fst cs \<Longrightarrow> log_file lg = (if n < m then None
                          else Some (document_of hs K cs ((n div m - 1) * m) (n div m * m)))"
    using inv by (simp_all add: logger_inv_def Let_def n_def m_def)
  have modle: "n mod m \<le> n" by (rule mod_less_eq_dividend)
  have buf': "logged_data lg @ [frame_record (frame_counter lg) (fst (snd c)) (snd (snd c))]
      = map (call_record (cs @ [c])) [n - n mod m..<Suc n]"
    using modle by (simp add: buf fc call_record_last [symmetric] n_def map_call_record_snoc)
  have cnt: "(frame_counter lg + 1) mod M = int (Suc n mod m)"
    by (simp add: fc m(2) zmod_int add.commute)
  from mod_Suc_cases [OF m(1), of n]
  show ?thesis
  proof
    assume a: "Suc n mod m = 0 \<and> n mod m = m - 1 \<and> Suc n div m = Suc (n div m)"
    then have a0: "Suc n mod m = 0" by simp
    have z: "(frame_counter lg + 1) mod M = 0" using cnt a0 by simp
    have sn: "Suc n = Suc (n div m) * m" using a by (metis mod_eq_0_iff_dvd dvd_div_mult_self mult.commute)
    have lo: "n - n mod m = Suc n - m" using a m(1) by simp
    have ge: "\<not> Suc n < m" using sn by simp
    have rng: "(Suc n div m - Suc 0) * m = Suc n - m" "Suc n div m * m = Suc n"
      using a sn by (simp_all add: algebra_simps)
    have ne: "[Suc n - m..<Suc n] \<noteq> []" using m(1) ge by simp
    show ?thesis
      using len M z ne
      apply (simp add: log_frame_def Let_def asi save_data_def buf' lo del: upt_Suc)
      apply (simp add: logger_inv_def Let_def n_def [symmetric] m_def [symmetric] fc asi hs K a0 ge rng
          document_of_def del: upt_Suc)
      done
  next
    assume a: "Suc n mod m = Suc (n mod m) \<and> Suc n div m = n div m"
    then have nz: "(frame_counter lg + 1) mod M \<noteq> 0" using cnt by simp
    have lo: "Suc n - Suc (n mod m) = n - n mod m" by simp
    have lt: "Suc n < m \<longleftrightarrow> n < m"
      using a by (metis Suc_lessD Suc_lessI mod_less mod_self nat.distinct(1))
    have dm: "n div m * m \<le> n" by simp
    have fl': "list_all fst cs \<Longrightarrow> log_file lg = (if n < m then None
                          else Some (document_of hs K (cs @ [c]) ((n div m - 1) * m) (n div m * m)))"
      using fl dm by (simp add: document_of_def map_call_record_snoc n_def)
    show ?thesis
      using len M nz
      apply (simp add: log_frame_def Let_def asi buf' del: upt_Suc)
      apply (simp add: logger_inv_def Let_def n_def [symmetric] m_def [symmetric] fc asi hs K a lo lt
          del: upt_Suc)
      using fl' by simp
  qed
qed

lemma logger_inv_run:
  assumes M: "0 < M" and len: "list_all (\<lambda>c. 4 \<le> length (snd (snd c))) cs"
  shows "\<exists>lg. log_frames (logger_init hs M K) cs = Inr lg \<and> logger_inv hs M K cs lg"
  using len
proof (induction cs rule: rev_induct)
  case Nil
  show ?case by (simp add: logger_inv_init M)
next
  case (snoc c cs)
  then obtain lg where run: "log_frames (logger_init hs M K) cs = Inr lg"
    and inv: "logger_inv hs M K cs lg" by auto
  from snoc.prems have "4 \<le> length (snd (snd c))" by simp
  from logger_inv_step [OF M inv this]
  obtain lg' msgs where "log_frame (fst c) lg (fst (snd c)) (snd (snd c)) = Inr (lg', msgs)"
    and "logger_inv hs M K (cs @ [c]) lg'" by blast
  then show ?case by (simp add: log_frames_snoc run bnd_def)
qed

text \<open>
  Claim C10. For every sequence of \<open>log_frame\<close> calls on a fresh logger with auto-save
  interval \<open>M > 0\<close> (each call with a coordinate frame of at least four entries), no
  call raises, and after the calls: the counter is the number of calls; the buffer holds
  the records of the calls since the last multiple of \<open>M\<close>, so at most \<open>M\<close> of them, and
  none when the counter is a multiple of \<open>M\<close>; and, when every write succeeded, the file
  is absent before the first save and otherwise holds exactly the last full block of
  \<open>M\<close> records, with \<open>total_frames = M\<close>, the earlier save being overwritten. The record
  of call number \<open>k\<close> has \<open>frame_id = k\<close>, so the identifiers run on consecutively from one
  save to the next.
\<close>

theorem log_frame_auto_save:
  assumes M: "0 < M" and len: "list_all (\<lambda>c. 4 \<le> length (snd (snd c))) calls"
  shows "\<exists>lg. log_frames (logger_init hs M K) calls = Inr lg
      \<and> frame_counter lg = int (length calls)
      \<and> logged_data lg
          = map (call_record calls) [length calls - length calls mod nat M..<length calls]
      \<and> length (logged_data lg) = length calls mod nat M
      \<and> int (length (logged_data lg)) \<le> M
      \<and> (list_all fst calls \<longrightarrow>
           log_file lg =
             (if length calls < nat M then None
              else Some (document_of hs K calls ((length calls div nat M - 1) * nat M)
                           (length calls div nat M * nat M))))
      \<and> total_frames (document_of hs K calls ((length calls div nat M - 1) * nat M)
                           (length calls div nat M * nat M))
          = (if length calls < nat M then 0 else nat M)
      \<and> map frame_id (frames (document_of hs K calls i j)) = map int [i..<j]"
proof -
  define n where "n = length calls"
  define m where "m = nat M"
  have m: "0 < m" "M = int m" using M by (simp_all add: m_def)
  from logger_inv_run [OF M len, of hs K]
  obtain lg where run: "log_frames (logger_init hs M K) calls = Inr lg"
    and inv: "logger_inv hs M K calls lg" by blast
  have fc: "frame_counter lg = int n"
    and buf: "logged_data lg = map (call_record calls) [n - n mod m..<n]"
    and fl: "list_all fst calls \<longrightarrow> log_file lg = (if n < m then None
                          else Some (document_of hs K calls ((n div m - 1) * m) (n div m * m)))"
    using inv by (simp_all add: logger_inv_def Let_def n_def m_def)
  have modle: "n mod m \<le> n" by (rule mod_less_eq_dividend)
  have l: "length (logged_data lg) = n mod m" using modle by (simp add: buf)
  have "n mod m < m" using m(1) by simp
  then have le: "int (length (logged_data lg)) \<le> M" by (simp add: l m(2))
  have tf: "total_frames (document_of hs K calls ((n div m - 1) * m) (n div m * m))
      = (if n < m then 0 else m)"
  proof (cases "n < m")
    case True
    then show ?thesis by (simp add: document_of_def)
  next
    case False
    then have "0 < n div m" using m(1) by (simp add: div_greater_zero_iff)
    then have "n div m * m - (n div m - 1) * m = m"
      by (cases "n div m") simp_all
    with False show ?thesis by (simp add: document_of_def)
  qed
  have ids: "map frame_id (frames (document_of hs K calls i j)) = map int [i..<j]"
    by (simp add: document_of_def call_record_def frame_record_def)
  show ?thesis
    using run fc buf l le fl tf ids unfolding n_def m_def by blast
qed

theorem log_frame_auto_save_witness:
  "(0::int) < 2 \<and> list_all (\<lambda>c. 4 \<le> length (snd (snd c))) example_calls
   \<and> (\<exists>lg. log_frames (logger_init RIGHT 2 5) example_calls = Inr lg
         \<and> frame_counter lg = 3
         \<and> map frame_id (logged_data lg) = [2]
         \<and> map_option (map frame_id \<circ> frames) (log_file lg) = Some [0, 1]
         \<and> map_option total_frames (log_file lg) = Some 2)"
proof -
  have h1: "(0::int) < 2" by simp
  have h2: "list_all (\<lambda>c. 4 \<le> length (snd (snd c))) example_calls"
    by (simp add: example_calls_def)
  have h3: "list_all fst example_calls" by (simp add: example_calls_def)
  have n: "length example_calls = 3" by (simp add: example_calls_def)
  have u1: "[2..<3] = [2::nat]" by code_simp
  have u2: "[0..<2] = [0, 1::nat]" by code_simp
  from log_frame_auto_save [OF h1 h2, of RIGHT 5 0 0]
  obtain lg where run: "log_frames (logger_init RIGHT 2 5) example_calls = Inr lg"
    and fc: "frame_counter lg = int (length example_calls)"
    and buf: "logged_data lg = map (call_record example_calls)
        [length example_calls - length example_calls mod nat 2..<length example_calls]"
    and fl: "list_all fst example_calls \<longrightarrow> log_file lg =
             (if length example_calls < nat 2 then None
              else Some (document_of RIGHT 5 example_calls ((length example_calls div nat 2 - 1) * nat 2)
                           (length example_calls div nat 2 * nat 2)))"
    by blast
  have b: "map frame_id (logged_data lg) = [2]"
    by (simp add: buf n u1 call_record_def frame_record_def)
  have f: "log_file lg = Some (document_of RIGHT 5 example_calls 0 2)"
    using fl h3 by (simp add: n)
  have f1: "map_option (map frame_id \<circ> frames) (log_file lg) = Some [0, 1]"
    by (simp add: f document_of_def u2 call_record_def frame_record_def)
  have f2: "map_option total_frames (log_file lg) = Some 2"
    by (simp add: f document_of_def)
  have c: "frame_counter lg = 3" by (simp add: fc n)
  show ?thesis by (intro conjI exI [of _ lg] h1 h2 run c b f1 f2)
qed

section \<open>The rotation of the translated keypoints\<close>

lemma transpose3_involution: "transpose3 (transpose3 m) = m"
  by (cases m rule: transpose3.cases) simp

lemma dot_vdiv_left: "dot (vdiv a d) b = dot a b / d"
  by (cases a, cases b) (simp add: add_divide_distrib)

lemma dot_cross_flip: "dot (cross u v) w = dot w (cross u v)"
  by (rule dot_commute)

lemma dot_cross_entries:
  "dot b (cross b c) = 0" "dot c (cross b c) = 0"
  "dot b (cross c a) = dot a (cross b c)" "dot c (cross a b) = dot a (cross b c)"
  by (cases a, cases b, cases c, simp add: algebra_simps)+

lemma rotation_rows:
  assumes "det3 (a, b, c) \<noteq> 0"
  shows "mat_vec (transpose3 (inverse3 (a, b, c))) a = (1, 0, 0)"
    and "mat_vec (transpose3 (inverse3 (a, b, c))) b = (0, 1, 0)"
    and "mat_vec (transpose3 (inverse3 (a, b, c))) c = (0, 0, 1)"
  using assms
  by (simp_all add: transpose3_involution dot_vdiv_left dot_cross_flip dot_cross_entries)

lemma inverse3_right: "det3 (a, b, c) \<noteq> 0 \<Longrightarrow> mat_mul (a, b, c) (inverse3 (a, b, c)) = eye3"
  using rotation_rows [of a b c] by (simp add: eye3_def del: inverse3.simps)

lemma bnd_Inr_iff: "bnd m f = Inr y \<longleftrightarrow> (\<exists>x. m = Inr x \<and> f x = Inr y)"
  by (cases m) (simp_all add: bnd_def)

lemma at_index_translate:
  "at_index (translate_coords w hc) i = Inr v \<longleftrightarrow> i < length hc \<and> v = vsub (hc ! i) w"
  by (auto simp: at_index_def translate_coords_def)

lemma at_index_Inr: "i < length hc \<Longrightarrow> at_index hc i = Inr (hc ! i)"
  by (simp add: at_index_def)

lemma vsub_translate: "vsub (vsub a w) (vsub b w) = vsub a b"
  by (cases a, cases b, cases w) simp

lemma vsub_smult_zero: "vsub v (smult 0 w) = v"
  by (cases v, cases w) simp

lemma normalize_vector_Inr_iff:
  "normalize_vector u = Inr v \<longleftrightarrow> vnorm u \<noteq> 0 \<and> v = vdiv u (vnorm u)"
  by (auto simp: normalize_vector_def)

lemma landmarks_of_coord_frame:
  assumes "get_stable_coord_frame self (translate_coords w hc) = Inr A"
  obtains pn pd cp where
    "wrist_idx self < length hc" "index_knuckle_idx self < length hc"
    "pinky_knuckle_idx self < length hc" "middle_knuckle_idx self < length hc"
    "normalize_vector (cross (vsub (hc ! index_knuckle_idx self) (hc ! wrist_idx self))
        (vsub (hc ! middle_knuckle_idx self) (hc ! wrist_idx self))) = Inr pn"
    "normalize_vector (vdiv (vadd (vadd (vsub (hc ! index_knuckle_idx self) (hc ! wrist_idx self))
        (vsub (hc ! pinky_knuckle_idx self) (hc ! wrist_idx self)))
        (vsub (hc ! middle_knuckle_idx self) (hc ! wrist_idx self))) 3) = Inr pd"
    "normalize_vector (cross pd pn) = Inr cp"
    "orthogonalize_frame cp pd pn = Inr A"
  using assms
  unfolding get_stable_coord_frame_def Let_def bnd_Inr_iff at_index_translate
  by (auto simp: vsub_translate)

lemma hand_dir_frame_defined:
  assumes "get_stable_coord_frame self (translate_coords w hc) = Inr A"
  shows "\<exists>x y z. get_stable_hand_dir_frame self hc = Inr [hc ! wrist_idx self, x, y, z]"
proof -
  from landmarks_of_coord_frame [OF assms]
  obtain pn pd cp where
    idx: "wrist_idx self < length hc" "index_knuckle_idx self < length hc"
      "pinky_knuckle_idx self < length hc" "middle_knuckle_idx self < length hc"
    and pn: "normalize_vector (cross (vsub (hc ! index_knuckle_idx self) (hc ! wrist_idx self))
        (vsub (hc ! middle_knuckle_idx self) (hc ! wrist_idx self))) = Inr pn"
    and pd: "normalize_vector (vdiv (vadd (vadd (vsub (hc ! index_knuckle_idx self) (hc ! wrist_idx self))
        (vsub (hc ! pinky_knuckle_idx self) (hc ! wrist_idx self)))
        (vsub (hc ! middle_knuckle_idx self) (hc ! wrist_idx self))) 3) = Inr pd"
    and cp: "normalize_vector (cross pd pn) = Inr cp"
    by blast
  have pn1: "vnorm pn = 1" using pn by (auto simp: normalize_vector_Inr_iff vnorm_vdiv_self)
  have cp1: "vnorm cp = 1" using cp by (auto simp: normalize_vector_Inr_iff vnorm_vdiv_self)
  have cpe: "cp = vdiv (cross pd pn) (vnorm (cross pd pn))"
    using cp by (simp add: normalize_vector_Inr_iff)
  have "dot pn cp = dot cp pn" by (rule dot_commute)
  also have "\<dots> = dot (cross pd pn) pn / vnorm (cross pd pn)"
    by (subst cpe) (rule dot_vdiv_left)
  also have "\<dots> = 0" by (simp add: dot_cross_right)
  finally have orth: "dot pn cp = 0" .
  have a: "vnorm cp \<noteq> 0" using cp1 by simp
  have q: "vnorm (vsub pn (smult (dot pn (vdiv cp (vnorm cp))) (vdiv cp (vnorm cp)))) \<noteq> 0"
    by (simp add: cp1 vdiv_one orth vsub_smult_zero pn1)
  from orthogonalize_frame_defined [OF a q]
  obtain x y z where run: "orthogonalize_frame cp pn pd = Inr (x, y, z)" by blast
  have "get_stable_hand_dir_frame self hc = Inr [hc ! wrist_idx self, x, y, z]"
    unfolding get_stable_hand_dir_frame_def Let_def
    by (simp add: at_index_Inr idx pn pd cp run bnd_Inr)
  then show ?thesis by blast
qed

lemma vnorm_unit_axes:
  "vnorm (0, 0, 1) = 1" "vnorm (1, 0, 0) = 1" "vnorm (0, - 1, 0) = 1" "vnorm (0, 1, 0) = 1"
  "vnorm (- 1, 0, 0) = 1"
  by (simp_all add: vnorm_def)

lemma example_coord_frame:
  "get_stable_coord_frame example_transformer (map (\<lambda>p. vsub p (example_pose ! 0)) example_pose)
     = Inr ((0, - 1, 0), (1, 0, 0), (0, 0, 1))"
  by (simp add: get_stable_coord_frame_def example_transformer_def example_pose_def at_index_def
      bnd_def normalize_vector_def orthogonalize_frame_def vnorm_unit_axes Let_def)

lemma example_hand_dir_frame:
  "get_stable_hand_dir_frame example_transformer example_pose
     = Inr [(1, 1, 1), (0, - 1, 0), (0, 0, 1), (- 1, 0, 0)]"
  by (simp add: get_stable_hand_dir_frame_def example_transformer_def example_pose_def at_index_def
      bnd_def normalize_vector_def orthogonalize_frame_def vnorm_unit_axes Let_def)

text \<open>
  Claim C1. For every keypoint set whose rotation-alignment frame, computed from the
  keypoints translated by subtracting the wrist (the row of index 0), exists and is a
  non-singular matrix \<open>(x, y, z)\<close>: \<open>transform_keypoints\<close> returns, with \<open>R\<close> the transpose
  of the inverse of the matrix whose rows are \<open>x\<close>, \<open>y\<close>, \<open>z\<close>, the points \<open>R p\<close> for the
  translated points \<open>p\<close>, together with the hand-direction frame of the untranslated
  keypoints, which exists. The matrix times its inverse is the identity, and \<open>R\<close> takes
  \<open>x\<close>, \<open>y\<close>, \<open>z\<close> to the rows of the identity.
\<close>

theorem transform_keypoints_rotation:
  assumes fr: "get_stable_coord_frame self (map (\<lambda>p. vsub p (hc ! 0)) hc) = Inr (x, y, z)"
    and det: "det3 (x, y, z) \<noteq> 0"
  shows "\<exists>R cf. transform_keypoints self hc
          = Inr (map (mat_vec R) (map (\<lambda>p. vsub p (hc ! 0)) hc), cf)
      \<and> R = transpose3 (inverse3 (x, y, z))
      \<and> mat_mul (x, y, z) (inverse3 (x, y, z)) = eye3
      \<and> mat_vec R x = (1, 0, 0) \<and> mat_vec R y = (0, 1, 0) \<and> mat_vec R z = (0, 0, 1)
      \<and> get_stable_hand_dir_frame self hc = Inr cf"
proof -
  have ne: "hc \<noteq> []"
    using fr by (auto simp: get_stable_coord_frame_def at_index_def bnd_def)
  then obtain w rest where hc: "hc = w # rest" by (cases hc) auto
  have tr: "map (\<lambda>p. vsub p (hc ! 0)) hc = translate_coords w hc"
    by (simp add: translate_coords_def hc)
  have fr': "get_stable_coord_frame self (translate_coords w hc) = Inr (x, y, z)"
    using fr by (simp only: tr)
  from hand_dir_frame_defined [OF fr']
  obtain cf where cf: "get_stable_hand_dir_frame self hc = Inr cf" by blast
  define R where "R = transpose3 (inverse3 (x, y, z))"
  have solve: "linalg_solve_eye (x, y, z) = Inr (inverse3 (x, y, z))"
    using det by (simp add: linalg_solve_eye_def)
  have tk: "transform_keypoints self (w # rest) =
      bnd (get_stable_coord_frame self (translate_coords w (w # rest))) (\<lambda>original_coord_frame.
      bnd (linalg_solve_eye original_coord_frame) (\<lambda>solution.
      bnd (get_stable_hand_dir_frame self (w # rest)) (\<lambda>coordinate_frame.
      Inr (map (mat_vec (transpose3 solution)) (translate_coords w (w # rest)), coordinate_frame))))"
    by (simp add: transform_keypoints_def Let_def)
  have run: "transform_keypoints self hc = Inr (map (mat_vec R) (map (\<lambda>p. vsub p (hc ! 0)) hc), cf)"
    unfolding tr using fr' solve cf
    by (simp only: hc tk bnd_Inr R_def)
  show ?thesis
    using run cf inverse3_right [OF det] rotation_rows [OF det]
    by (intro exI [of _ R] exI [of _ cf]) (simp add: R_def del: inverse3.simps)
qed

theorem transform_keypoints_rotation_witness:
  "get_stable_coord_frame example_transformer (map (\<lambda>p. vsub p (example_pose ! 0)) example_pose)
     = Inr ((0, - 1, 0), (1, 0, 0), (0, 0, 1))
   \<and> det3 ((0, - 1, 0), (1, 0, 0), (0, 0, 1)) \<noteq> 0
   \<and> transform_keypoints example_transformer example_pose
     = Inr ([(0, 0, 0), (0, 1, 0), (- 1, 0, 0), (1, 2, 0)],
            [(1, 1, 1), (0, - 1, 0), (0, 0, 1), (- 1, 0, 0)])"
proof -
  have h2: "det3 ((0, - 1, 0), (1, 0, 0), (0, 0, 1)) \<noteq> 0" by simp
  from transform_keypoints_rotation [OF example_coord_frame h2]
  obtain R cf where
    run: "transform_keypoints example_transformer example_pose
          = Inr (map (mat_vec R) (map (\<lambda>p. vsub p (example_pose ! 0)) example_pose), cf)"
    and R: "R = transpose3 (inverse3 ((0, - 1, 0), (1, 0, 0), (0, 0, 1)))"
    and cf: "get_stable_hand_dir_frame example_transformer example_pose = Inr cf"
    by blast
  have R': "R = ((0, - 1, 0), (1, 0, 0), (0, 0, 1))" by (simp add: R)
  have cf': "cf = [(1, 1, 1), (0, - 1, 0), (0, 0, 1), (- 1, 0, 0)]"
    using cf by (simp add: example_hand_dir_frame)
  have pts: "map (mat_vec R) (map (\<lambda>p. vsub p (example_pose ! 0)) example_pose)
      = [(0, 0, 0), (0, 1, 0), (- 1, 0, 0), (1, 2, 0)]"
    by (simp add: R' example_pose_def)
  have "transform_keypoints example_transformer example_pose
     = Inr ([(0, 0, 0), (0, 1, 0), (- 1, 0, 0), (1, 2, 0)],
            [(1, 1, 1), (0, - 1, 0), (0, 0, 1), (- 1, 0, 0)])"
    by (simp only: run pts cf')
  then show ?thesis
    by (intro conjI example_coord_frame h2)
qed

section \<open>Degenerate geometry\<close>


lemma degenerate_acquired:
  "get_hand_coords example_robots example_transformer (received degenerate_input)
     = Inr (Some (ABSOLUTE, [(0, 0, 0), (0, 0, 0), (0, 0, 0), (0, 0, 0)]))"
  by (simp add: get_hand_coords_def degenerate_input_def example_robots_def example_transformer_def
      reshape_n3_def bnd_def)

lemma save_data_no_warning: "save_data ok lg = (lg', msgs) \<Longrightarrow> WARNING \<notin> set msgs"
  by (auto simp: save_data_def split: if_splits)

lemma log_frame_no_warning:
  "log_frame ok lg ks fr = Inr (lg', msgs) \<Longrightarrow> WARNING \<notin> set msgs"
  by (auto simp: log_frame_def Let_def split: if_splits prod.splits dest: save_data_no_warning)

lemma transformer_log_frame_no_warning:
  "transformer_log_frame ok self ks fr = Inr (self', msgs) \<Longrightarrow> WARNING \<notin> set msgs"
  by (cases "keypoint_logger self")
    (auto simp: transformer_log_frame_def bnd_def split: sum.splits dest: log_frame_no_warning)

lemma stream_tick_no_warning: "Log WARNING \<notin> set (fst (stream_tick rb self inp))"
  by (auto simp: stream_tick_def Let_def split: sum.splits option.splits prod.splits
      dest: transformer_log_frame_no_warning)

lemma stream_no_warning: "Log WARNING \<notin> set (fst (stream rb self inps))"
proof (induction inps arbitrary: self)
  case Nil
  show ?case by simp
next
  case (Cons inp inps)
  show ?case
    using stream_tick_no_warning [of rb self inp] Cons.IH
    by (auto split: prod.splits sum.splits) (metis fst_conv)+
qed

lemma data_tick_publishes_or_raises:
  assumes "received inp = Some frame"
  shows "isl (snd (stream_tick rb self inp)) \<or> coords_payloads (fst (stream_tick rb self inp)) \<noteq> []"
  using assms
  by (auto simp: stream_tick_def get_hand_coords_def bnd_def Let_def coords_payloads_def
      split: sum.splits option.splits prod.splits)

text \<open>
  Claim C3, as stated, fails: a tick that brings four coinciding keypoints, so that every
  landmark vector is zero, is not skipped with a warning. The tick is acquired like any
  other, and no warning is among the events of the tick, since nothing in \<open>stream\<close>,
  \<open>transform_keypoints\<close> or the logger emits one.
\<close>

theorem degenerate_tick_not_skipped:
  "get_hand_coords example_robots example_transformer (received degenerate_input)
     = Inr (Some (ABSOLUTE, [(0, 0, 0), (0, 0, 0), (0, 0, 0), (0, 0, 0)]))
   \<and> Log WARNING \<notin> set (fst (stream_tick example_robots example_transformer degenerate_input))
   \<and> stream_tick example_robots example_transformer degenerate_input
       \<noteq> ([Log WARNING], Inr example_transformer)"
proof -
  have w: "Log WARNING \<notin> set (fst (stream_tick example_robots example_transformer degenerate_input))"
    by (rule stream_tick_no_warning)
  have "fst (stream_tick example_robots example_transformer degenerate_input) \<noteq> [Log WARNING]"
    using w by auto
  then have "stream_tick example_robots example_transformer degenerate_input
       \<noteq> ([Log WARNING], Inr example_transformer)"
    by auto
  with w show ?thesis by (intro conjI degenerate_acquired)
qed

text \<open>
  Claim C3, amended. The source has no guard against degenerate geometry and no
  recovery from it. For every tick that brings keypoint data, those with zero or
  collinear landmark vectors or a singular frame matrix included, the tick emits no
  warning and is never skipped: either it leaves the loop with an exception or it
  publishes its record. No run of the loop emits a warning. Which of the two a
  degenerate pose leads to (a published frame that is not finite, or an exception)
  depends on \<^verbatim>\<open>normalize_vector\<close> and is left open.
\<close>

theorem data_tick_never_skipped:
  assumes "received inp = Some frame"
  shows "Log WARNING \<notin> set (fst (stream_tick rb self inp))
      \<and> (isl (snd (stream_tick rb self inp))
           \<or> coords_payloads (fst (stream_tick rb self inp)) \<noteq> [])
      \<and> Log WARNING \<notin> set (fst (stream rb self (inp # inps)))"
  using data_tick_publishes_or_raises [OF assms, of rb self]
    stream_tick_no_warning [of rb self inp] stream_no_warning [of rb self "inp # inps"]
  by blast

theorem data_tick_never_skipped_witness:
  "received degenerate_input
     = Some \<lparr>in_keypoints = [0, 0, 0, 0, 0, 0, 0, 0, 0, 0, 0, 0], in_is_relative = False\<rparr>
   \<and> Log WARNING \<notin> set (fst (stream_tick example_robots example_transformer degenerate_input))
   \<and> (isl (snd (stream_tick example_robots example_transformer degenerate_input))
        \<or> coords_payloads (fst (stream_tick example_robots example_transformer degenerate_input))
            \<noteq> [])
   \<and> Log WARNING
       \<notin> set (fst (stream example_robots example_transformer [degenerate_input, example_input]))"
proof -
  have h: "received degenerate_input
     = Some \<lparr>in_keypoints = [0, 0, 0, 0, 0, 0, 0, 0, 0, 0, 0, 0], in_is_relative = False\<rparr>"
    by (simp add: degenerate_input_def)
  from data_tick_never_skipped [OF h, of example_robots example_transformer "[example_input]"]
  show ?thesis using h by blast
qed

section \<open>The sliding windows\<close>





lemma get_hand_coords_static [simp]:
  "get_hand_coords rb (self\<lparr>coord_moving_average_queue := a, frame_moving_average_queue := b,
      keypoint_logger := c\<rparr>) r = get_hand_coords rb self r"
  by (simp add: get_hand_coords_def split: option.split)

lemma transform_keypoints_static [simp]:
  "transform_keypoints (self\<lparr>coord_moving_average_queue := a, frame_moving_average_queue := b,
      keypoint_logger := c\<rparr>) hc = transform_keypoints self hc"
  by (simp add: transform_keypoints_def get_stable_coord_frame_def get_stable_hand_dir_frame_def
      split: list.split)




lemma coords_payloads_tick [simp]:
  "coords_payloads ([Publish (coords_topic h) d] @ map Log msgs @ [Publish (frame_topic h) d]) = [d]"
  by (induction msgs) (simp_all add: coords_payloads_def)





















end
